theory Spec2Isabelle
  imports Complex_Main "HOL-Library.Word"
begin

section \<open>The obstacle-distance cost function of the STOMP planner for MoveIt\<close>

text \<open>
  A shallow embedding of \<^verbatim>\<open>stomp_moveit/src/cost_functions/obstacle_distance_gradient.cpp\<close>.
  The class \<^verbatim>\<open>ObstacleDistanceGradient\<close> is a record of its member variables; each member
  function takes the object and returns it updated, together with its return value and its
  output parameters. A \<^verbatim>\<open>double\<close> is a \<open>real\<close> (no rounding, no NaN), a
  \<^verbatim>\<open>std::size_t\<close> is a 64-bit word, an \<^verbatim>\<open>int\<close> is a 32-bit word (read as signed by \<open>sint\<close>).
\<close>

subsection \<open>Numbers, vectors and matrices\<close>

type_synonym size_t = "64 word"
type_synonym int32 = "32 word"

text \<open>
  \<^verbatim>\<open>Eigen::VectorXd\<close> is the list of its coefficients, \<^verbatim>\<open>Eigen::MatrixXd\<close> the list of its
  columns (the source reads the matrix by column only).
\<close>

type_synonym VectorXd = "real list"
type_synonym MatrixXd = "real list list"

datatype error = IndexOutOfRange nat nat | NegativeSize int

definition cols :: "MatrixXd \<Rightarrow> nat" where
  "cols m = length m"

text \<open>
  \<^verbatim>\<open>Eigen::VectorXd::Zero(n)\<close>. The argument is converted from \<^verbatim>\<open>size_t\<close> to Eigen's
  signed 64-bit index, which is negative from \<open>2^63\<close> on; Eigen asserts that a size is not
  negative, and the error is \<open>NegativeSize\<close> with the converted value. Below \<open>2^63\<close> the
  allocation is taken to succeed.
\<close>

definition Zero :: "size_t \<Rightarrow> error + VectorXd" where
  "Zero n = (if n < 2 ^ 63 then Inr (replicate (unat n) 0) else Inl (NegativeSize (sint n)))"

text \<open>
  \<^verbatim>\<open>parameters.col(t)\<close> and \<^verbatim>\<open>costs(t) = cost\<close>. Eigen asserts
  \<^verbatim>\<open>index >= 0 && index < size()\<close> on both; an index outside the object is the error
  \<open>IndexOutOfRange index size\<close>.
\<close>

definition col :: "MatrixXd \<Rightarrow> size_t \<Rightarrow> error + VectorXd" where
  "col m t = (if unat t < cols m then Inr (m ! unat t) else Inl (IndexOutOfRange (unat t) (cols m)))"

definition coeff_assign :: "VectorXd \<Rightarrow> size_t \<Rightarrow> real \<Rightarrow> error + VectorXd" where
  "coeff_assign v t x =
     (if unat t < length v then Inr (v[unat t := x]) else Inl (IndexOutOfRange (unat t) (length v)))"

subsection \<open>The configuration value\<close>

text \<open>
  Modelled from the spec: \<^verbatim>\<open>XmlRpc::XmlRpcValue\<close> is declared in the xmlrpcpp library, not in
  the sources. The configuration is a mapping from keys to values, and a value either converts
  to a floating-point number or the conversion throws \<^verbatim>\<open>XmlRpcException\<close>. A struct is the
  association list of its members. \<open>hasMember\<close> is false on a value that is no struct;
  \<open>member_of\<close> is \<^verbatim>\<open>operator[]\<close>, which throws on a value of another type than struct;
  \<open>asDouble\<close> is \<^verbatim>\<open>operator double&\<close>: a double converts to itself, a value that has no
  type yet becomes the double 0, and every other value throws.
\<close>

datatype XmlRpcValue =
    TypeInvalid
  | TypeBoolean bool
  | TypeInt int32
  | TypeDouble real
  | TypeString string
  | TypeStruct "(string \<times> XmlRpcValue) list"

datatype XmlRpcException = XmlRpcTypeError

fun hasMember :: "XmlRpcValue \<Rightarrow> string \<Rightarrow> bool" where
  "hasMember (TypeStruct ms) k = (map_of ms k \<noteq> None)"
| "hasMember _ k = False"

fun member_of :: "XmlRpcValue \<Rightarrow> string \<Rightarrow> XmlRpcException + XmlRpcValue" where
  "member_of (TypeStruct ms) k = (case map_of ms k of Some v \<Rightarrow> Inr v | None \<Rightarrow> Inr TypeInvalid)"
| "member_of TypeInvalid k = Inr TypeInvalid"
| "member_of _ k = Inl XmlRpcTypeError"

fun asDouble :: "XmlRpcValue \<Rightarrow> XmlRpcException + real" where
  "asDouble (TypeDouble d) = Inr d"
| "asDouble TypeInvalid = Inr 0"
| "asDouble _ = Inl XmlRpcTypeError"

text \<open>\<^verbatim>\<open>static_cast<double>(c[k])\<close>: the member, then its conversion.\<close>

definition double_member :: "XmlRpcValue \<Rightarrow> string \<Rightarrow> XmlRpcException + real" where
  "double_member c k = (case member_of c k of Inl e \<Rightarrow> Inl e | Inr v \<Rightarrow> asDouble v)"

subsection \<open>The collaborators\<close>

text \<open>
  The robot model, the robot state, the planning scene and the messages belong to MoveIt and to
  the robot-model package; the cost function only passes them around. Their types are
  parameters (\<open>'model\<close>, \<open>'state\<close>, \<open>'scene\<close>, \<open>'msg\<close>, \<open>'jmg\<close> for the joint model
  group), and the operations the source calls on them are the fields of one record. A shared
  pointer is an \<open>option\<close>, \<open>None\<close> the null pointer; a collaborator called through
  \<^verbatim>\<open>robot_model_ptr_\<close> receives the pointer.
\<close>

record ('model, 'scene, 'state, 'msg, 'jmg) collaborators =
  hasDistanceField :: "'model option \<Rightarrow> bool"
  getJointModelGroup :: "'model option \<Rightarrow> string \<Rightarrow> 'jmg"
  distance :: "'model option \<Rightarrow> string \<Rightarrow> 'scene option \<Rightarrow> 'state \<Rightarrow> real"
  RobotState :: "'model option \<Rightarrow> 'state"
  robotStateMsgToRobotState :: "'msg \<Rightarrow> 'state \<Rightarrow> bool \<times> 'state"
  setJointGroupPositions :: "'state \<Rightarrow> 'jmg \<Rightarrow> VectorXd \<Rightarrow> 'state"
  update :: "'state \<Rightarrow> 'state"

record 'msg MotionPlanRequest =
  start_state :: 'msg

record MoveItErrorCodes =
  val :: int32

definition SUCCESS :: int32 where
  "SUCCESS = 1"

subsection \<open>The object\<close>

text \<open>
  The member variables, without the trailing underscore of the source (\<^verbatim>\<open>robot_state_\<close> is
  \<open>robot_state\<close>): a name that ends in an underscore is not a name of a constant here.
\<close>

record ('model, 'scene, 'state, 'msg) ObstacleDistanceGradient =
  name :: string
  robot_model_ptr :: "'model option"
  group_name :: string
  max_distance :: real
  cost_weight :: real
  planning_scene :: "'scene option"
  plan_request :: "'msg MotionPlanRequest"
  robot_state :: "'state option"

text \<open>
  The constructor names the object and leaves the pose snapshot null. The two thresholds are
  not initialised by it, and the request is default-constructed: their values are arguments.
\<close>

definition ObstacleDistanceGradient ::
  "real \<Rightarrow> real \<Rightarrow> 'msg MotionPlanRequest \<Rightarrow> ('model, 'scene, 'state, 'msg) ObstacleDistanceGradient" where
  "ObstacleDistanceGradient md cw req =
     \<lparr>name = ''ObstacleDistanceGradient'', robot_model_ptr = None, group_name = [],
      max_distance = md, cost_weight = cw, planning_scene = None, plan_request = req,
      robot_state = None\<rparr>"

subsection \<open>configure and initialize\<close>

text \<open>
  \<open>configure\<close> checks the two keys in the order \<^verbatim>\<open>cost_weight\<close>, \<^verbatim>\<open>max_distance\<close>, then
  assigns \<^verbatim>\<open>max_distance_\<close> and then \<^verbatim>\<open>cost_weight_\<close>; an \<^verbatim>\<open>XmlRpcException\<close> thrown by
  either conversion is caught and the function returns false with the object as it is at that
  point.
\<close>

definition configure ::
  "('model, 'scene, 'state, 'msg) ObstacleDistanceGradient \<Rightarrow> XmlRpcValue
     \<Rightarrow> bool \<times> ('model, 'scene, 'state, 'msg) ObstacleDistanceGradient" where
  "configure this config =
     (if \<not> hasMember config ''cost_weight'' then (False, this)
      else if \<not> hasMember config ''max_distance'' then (False, this)
      else
        (case double_member config ''max_distance'' of
           Inl e \<Rightarrow> (False, this)
         | Inr md \<Rightarrow>
             let this1 = this\<lparr>max_distance := md\<rparr> in
             (case double_member config ''cost_weight'' of
                Inl e \<Rightarrow> (False, this1)
              | Inr cw \<Rightarrow> (True, this1\<lparr>cost_weight := cw\<rparr>))))"

text \<open>
  The parameters \<^verbatim>\<open>robot_model_ptr\<close> and \<^verbatim>\<open>group_name\<close> of \<open>initialize\<close> are written
  \<open>model_ptr\<close> and \<open>grp_name\<close>, and the parameter \<^verbatim>\<open>planning_scene\<close> of
  \<open>setMotionPlanRequest\<close> is written \<open>scene\<close>, apart from the members they are stored in.
\<close>

definition initialize ::
  "('model, 'scene, 'state, 'msg, 'jmg) collaborators
     \<Rightarrow> ('model, 'scene, 'state, 'msg) ObstacleDistanceGradient
     \<Rightarrow> 'model option \<Rightarrow> string \<Rightarrow> XmlRpcValue
     \<Rightarrow> bool \<times> ('model, 'scene, 'state, 'msg) ObstacleDistanceGradient" where
  "initialize env this model_ptr grp_name config =
     (let this1 = this\<lparr>robot_model_ptr := model_ptr\<rparr> in
      if \<not> hasDistanceField env (robot_model_ptr this1) then (False, this1)
      else configure (this1\<lparr>group_name := grp_name\<rparr>) config)"

subsection \<open>setMotionPlanRequest and done\<close>

text \<open>
  The result is the return value, the object and the output parameter \<^verbatim>\<open>error_code\<close>. The
  planner configuration is not read. The member function \<^verbatim>\<open>done\<close> is \<open>done_fn\<close>.
\<close>

definition setMotionPlanRequest ::
  "('model, 'scene, 'state, 'msg, 'jmg) collaborators
     \<Rightarrow> ('model, 'scene, 'state, 'msg) ObstacleDistanceGradient
     \<Rightarrow> 'scene option \<Rightarrow> 'msg MotionPlanRequest \<Rightarrow> 'cfg \<Rightarrow> MoveItErrorCodes
     \<Rightarrow> bool \<times> ('model, 'scene, 'state, 'msg) ObstacleDistanceGradient \<times> MoveItErrorCodes" where
  "setMotionPlanRequest env this scene req config error_code =
     (let this1 = this\<lparr>planning_scene := scene\<rparr>;
          this2 = this1\<lparr>plan_request := req\<rparr>;
          error_code1 = error_code\<lparr>val := SUCCESS\<rparr>;
          (ok, st) = robotStateMsgToRobotState env (start_state req)
                       (RobotState env (robot_model_ptr this2));
          this3 = this2\<lparr>robot_state := Some st\<rparr>
      in if \<not> ok then (False, this3, error_code1) else (True, this3, error_code1))"

definition done_fn ::
  "('model, 'scene, 'state, 'msg) ObstacleDistanceGradient \<Rightarrow> bool \<Rightarrow> int32 \<Rightarrow> real
     \<Rightarrow> ('model, 'scene, 'state, 'msg) ObstacleDistanceGradient" where
  "done_fn this success total_iterations final_cost = this\<lparr>robot_state := None\<rparr>"

subsection \<open>computeCosts\<close>

text \<open>
  The if-chain of the loop body, from the member \<^verbatim>\<open>max_distance_\<close> and the distance
  \<^verbatim>\<open>dist\<close> (here \<open>d\<close>) to the cost of the timestep. The division is only reached with
  \<open>0 \<le> d < max_dist\<close>, so never with a zero divisor.
\<close>

definition distance_cost :: "real \<Rightarrow> real \<Rightarrow> real" where
  "distance_cost max_dist d =
     (if d \<ge> max_dist then 0
      else if d < 0 then 1
      else (max_dist - d) / max_dist)"

text \<open>
  The loop \<^verbatim>\<open>for (auto t = start_timestep; t < start_timestep + num_timesteps; ++t)\<close>, from
  the counter \<open>t\<close> on; \<open>bound\<close> is the sum \<^verbatim>\<open>start_timestep + num_timesteps\<close> in
  \<^verbatim>\<open>size_t\<close> arithmetic. It carries the pose snapshot and the cost vector, the two objects
  the body writes.
\<close>

function computeCosts_loop ::
  "('model, 'scene, 'state, 'msg, 'jmg) collaborators
     \<Rightarrow> ('model, 'scene, 'state, 'msg) ObstacleDistanceGradient
     \<Rightarrow> 'jmg \<Rightarrow> MatrixXd \<Rightarrow> size_t \<Rightarrow> size_t \<Rightarrow> 'state \<Rightarrow> VectorXd
     \<Rightarrow> error + 'state \<times> VectorXd" where
  "computeCosts_loop env this joint_group parameters t bound st costs =
     (if t < bound then
        (case col parameters t of
           Inl e \<Rightarrow> Inl e
         | Inr c \<Rightarrow>
             let st1 = update env (setJointGroupPositions env st joint_group c);
                 dist = distance env (robot_model_ptr this) (group_name this)
                          (planning_scene this) st1;
                 cost = distance_cost (max_distance this) dist
             in (case coeff_assign costs t cost of
                   Inl e \<Rightarrow> Inl e
                 | Inr costs1 \<Rightarrow>
                     computeCosts_loop env this joint_group parameters (t + 1) bound st1 costs1))
      else Inr (st, costs))"
  by pat_completeness auto
termination
proof (relation "measure (\<lambda>(env, this, joint_group, parameters, t, bound, st, costs). unat bound - unat t)")
  show "wf (measure (\<lambda>(env :: ('model, 'scene, 'state, 'msg, 'jmg) collaborators,
                 this :: ('model, 'scene, 'state, 'msg) ObstacleDistanceGradient,
                 joint_group :: 'jmg, parameters :: MatrixXd, t :: size_t, bound :: size_t,
                 st :: 'state, costs :: VectorXd). unat bound - unat t))"
    by simp
next
  fix env :: "('model, 'scene, 'state, 'msg, 'jmg) collaborators"
    and this :: "('model, 'scene, 'state, 'msg) ObstacleDistanceGradient"
    and joint_group :: 'jmg and parameters :: MatrixXd and t bound :: size_t
    and st x :: 'state and costs c y :: VectorXd and d z :: real
  assume lt: "t < bound"
  from lt have "t \<noteq> - 1"
    by (metis word_order.extremum_strict)
  then have "1 + t \<noteq> 0"
    by (metis add_eq_0_iff)
  then have "unat (t + 1) = Suc (unat t)"
    by (simp add: unatSuc add.commute)
  moreover from lt have "unat t < unat bound"
    by (simp add: word_less_nat_alt)
  ultimately show "((env, this, joint_group, parameters, t + 1, bound, x, y),
                    (env, this, joint_group, parameters, t, bound, st, costs))
                   \<in> measure (\<lambda>(env, this, joint_group, parameters, t, bound, st, costs). unat bound - unat t)"
    by simp
qed

declare computeCosts_loop.simps [simp del]

text \<open>
  The result is the return value, the object, and the output parameters \<^verbatim>\<open>costs\<close> and
  \<^verbatim>\<open>validity\<close>, whose values at the call are arguments. \<^verbatim>\<open>parameters.cols()\<close> is
  never negative, so the comparison with the \<^verbatim>\<open>size_t\<close> sum is one of natural numbers.
\<close>

definition computeCosts ::
  "('model, 'scene, 'state, 'msg, 'jmg) collaborators
     \<Rightarrow> ('model, 'scene, 'state, 'msg) ObstacleDistanceGradient
     \<Rightarrow> MatrixXd \<Rightarrow> size_t \<Rightarrow> size_t \<Rightarrow> int32 \<Rightarrow> int32 \<Rightarrow> VectorXd \<Rightarrow> bool
     \<Rightarrow> error + bool \<times> ('model, 'scene, 'state, 'msg) ObstacleDistanceGradient \<times> VectorXd \<times> bool" where
  "computeCosts env this parameters start_timestep num_timesteps iteration_number rollout_number
       costs validity =
     (case robot_state this of
        None \<Rightarrow> Inr (False, this, costs, validity)
      | Some st \<Rightarrow>
          (case Zero num_timesteps of
             Inl e \<Rightarrow> Inl e
           | Inr costs1 \<Rightarrow>
               let joint_group = getJointModelGroup env (robot_model_ptr this) (group_name this)
               in if cols parameters < unat (start_timestep + num_timesteps)
                  then Inr (False, this, costs1, validity)
                  else
                    (case computeCosts_loop env this joint_group parameters start_timestep
                            (start_timestep + num_timesteps) st costs1 of
                       Inl e \<Rightarrow> Inl e
                     | Inr (st1, costs2) \<Rightarrow>
                         Inr (True, this\<lparr>robot_state := Some st1\<rparr>, costs2, True))))"

subsection \<open>Sequences of calls\<close>

text \<open>
  The optimizer calls the member functions one after the other on the same object. A call is
  the member function with its arguments; \<open>run\<close> gives the object after a sequence of
  calls, or the error that stopped it.
\<close>

datatype ('model, 'scene, 'msg, 'cfg) call =
    Initialize "'model option" string XmlRpcValue
  | Configure XmlRpcValue
  | SetMotionPlanRequest "'scene option" "'msg MotionPlanRequest" 'cfg MoveItErrorCodes
  | ComputeCosts MatrixXd size_t size_t int32 int32 VectorXd bool
  | Done bool int32 real

fun is_SetMotionPlanRequest :: "('model, 'scene, 'msg, 'cfg) call \<Rightarrow> bool" where
  "is_SetMotionPlanRequest (SetMotionPlanRequest scene req config error_code) = True"
| "is_SetMotionPlanRequest _ = False"

fun call_step ::
  "('model, 'scene, 'state, 'msg, 'jmg) collaborators
     \<Rightarrow> ('model, 'scene, 'state, 'msg) ObstacleDistanceGradient
     \<Rightarrow> ('model, 'scene, 'msg, 'cfg) call
     \<Rightarrow> error + ('model, 'scene, 'state, 'msg) ObstacleDistanceGradient" where
  "call_step env this (Initialize model_ptr grp_name config) =
     Inr (snd (initialize env this model_ptr grp_name config))"
| "call_step env this (Configure config) = Inr (snd (configure this config))"
| "call_step env this (SetMotionPlanRequest scene req config error_code) =
     Inr (fst (snd (setMotionPlanRequest env this scene req config error_code)))"
| "call_step env this (ComputeCosts parameters start_timestep num_timesteps iteration_number
       rollout_number costs validity) =
     (case computeCosts env this parameters start_timestep num_timesteps iteration_number
             rollout_number costs validity of
        Inl e \<Rightarrow> Inl e
      | Inr (ret, this1, costs1, validity1) \<Rightarrow> Inr this1)"
| "call_step env this (Done success total_iterations final_cost) =
     Inr (done_fn this success total_iterations final_cost)"

fun run ::
  "('model, 'scene, 'state, 'msg, 'jmg) collaborators
     \<Rightarrow> ('model, 'scene, 'state, 'msg) ObstacleDistanceGradient
     \<Rightarrow> ('model, 'scene, 'msg, 'cfg) call list
     \<Rightarrow> error + ('model, 'scene, 'state, 'msg) ObstacleDistanceGradient" where
  "run env this [] = Inr this"
| "run env this (c # cs) =
     (case call_step env this c of Inl e \<Rightarrow> Inl e | Inr this1 \<Rightarrow> run env this1 cs)"

text \<open>
  The pose snapshot at the distance query of timestep \<open>t\<close>, in a call that starts at
  \<open>start_timestep\<close> with the snapshot \<open>st\<close>: the columns \<open>start_timestep\<close> to \<open>t\<close> of
  the matrix have been applied to it in this order, each followed by \<^verbatim>\<open>update()\<close>.
\<close>

definition pose_at ::
  "('model, 'scene, 'state, 'msg, 'jmg) collaborators \<Rightarrow> 'jmg \<Rightarrow> MatrixXd \<Rightarrow> 'state
     \<Rightarrow> size_t \<Rightarrow> size_t \<Rightarrow> 'state" where
  "pose_at env joint_group parameters st start_timestep t =
     foldl (\<lambda>s c. update env (setJointGroupPositions env s joint_group c)) st
       (take (Suc (unat t - unat start_timestep)) (drop (unat start_timestep) parameters))"

subsection \<open>Concrete collaborators and inputs\<close>

text \<open>
  An instance of the collaborators on which the functions can be evaluated: the robot state is
  the list of its joint values, a new state has none, the distance to the nearest obstacle is
  the first joint value, and a start-state message is a list of joint values, or \<open>None\<close>
  for a message that the conversion rejects.
\<close>

definition example_env :: "(unit, unit, real list, real list option, unit) collaborators" where
  "example_env =
     \<lparr>hasDistanceField = (\<lambda>m. True),
      getJointModelGroup = (\<lambda>m g. ()),
      distance = (\<lambda>m g sc st. case st of [] \<Rightarrow> 0 | x # xs \<Rightarrow> x),
      RobotState = (\<lambda>m. []),
      robotStateMsgToRobotState = (\<lambda>msg st. case msg of None \<Rightarrow> (False, st) | Some js \<Rightarrow> (True, js)),
      setJointGroupPositions = (\<lambda>st jg v. v),
      update = (\<lambda>st. st)\<rparr>"

definition example_config :: XmlRpcValue where
  "example_config = TypeStruct [(''cost_weight'', TypeDouble 1), (''max_distance'', TypeDouble (1 / 10))]"

text \<open>The object after the constructor and a successful \<open>initialize\<close>.\<close>

definition example_object :: "(unit, unit, real list, real list option) ObstacleDistanceGradient" where
  "example_object =
     snd (initialize example_env (ObstacleDistanceGradient 0 0 \<lparr>start_state = None\<rparr>)
            (Some ()) ''manipulator'' example_config)"

text \<open>The same object after a successful \<open>setMotionPlanRequest\<close>.\<close>

definition example_armed :: "(unit, unit, real list, real list option) ObstacleDistanceGradient" where
  "example_armed =
     fst (snd (setMotionPlanRequest example_env example_object (Some ())
                 \<lparr>start_state = Some [0]\<rparr> () \<lparr>val = 0\<rparr>))"

text \<open>
  The object after a \<open>setMotionPlanRequest\<close> that returns false (the conversion rejects the
  start state), and a configuration whose \<^verbatim>\<open>cost_weight\<close> is a string.
\<close>

definition example_rejected :: "(unit, unit, real list, real list option) ObstacleDistanceGradient" where
  "example_rejected =
     fst (snd (setMotionPlanRequest example_env example_object (Some ())
                 \<lparr>start_state = None\<rparr> () \<lparr>val = 0\<rparr>))"

definition example_bad_config :: XmlRpcValue where
  "example_bad_config =
     TypeStruct [(''cost_weight'', TypeString ''high''), (''max_distance'', TypeDouble (1 / 2))]"

section \<open>Properties\<close>

subsection \<open>The loop\<close>

lemma unat_Suc_less: "(t::size_t) < bound \<Longrightarrow> unat (t + 1) = Suc (unat t)"
proof -
  assume lt: "t < bound"
  then have "t \<noteq> - 1"
    by (metis word_order.extremum_strict)
  then have "1 + t \<noteq> 0"
    by (metis add_eq_0_iff)
  then show ?thesis
    by (simp add: unatSuc add.commute)
qed

lemma size_t_sum: "unat s + unat n < 2 ^ 64 \<Longrightarrow> unat ((s::size_t) + n) = unat s + unat n"
  using unat_add_lem [of s n] by simp

lemma Zero_Inr: "Zero n = Inr z \<Longrightarrow> n < 2 ^ 63 \<and> z = replicate (unat n) 0"
  by (auto simp: Zero_def split: if_splits)

lemma Zero_small: "n < 2 ^ 63 \<Longrightarrow> Zero n = Inr (replicate (unat n) 0)"
  by (simp add: Zero_def)

lemma col_Inr: "col m t = Inr c \<Longrightarrow> unat t < length m \<and> c = m ! unat t"
  by (auto simp: col_def cols_def split: if_splits)

lemma coeff_assign_Inr:
  "coeff_assign v t x = Inr v' \<Longrightarrow> unat t < length v \<and> v' = v[unat t := x]"
  by (auto simp: coeff_assign_def split: if_splits)

text \<open>One turn of the loop, when the loop ends without an error.\<close>

lemma loop_unfold:
  assumes "computeCosts_loop env this jg P t b st costs = Inr (st', costs')" and "t < b"
  shows "unat t < length P \<and> unat t < length costs
     \<and> computeCosts_loop env this jg P (t + 1) b
          (update env (setJointGroupPositions env st jg (P ! unat t)))
          (costs[unat t := distance_cost (max_distance this)
             (distance env (robot_model_ptr this) (group_name this) (planning_scene this)
                (update env (setJointGroupPositions env st jg (P ! unat t))))])
        = Inr (st', costs')"
proof -
  from assms obtain c where c: "col P t = Inr c"
    by (subst (asm) computeCosts_loop.simps) (auto split: sum.splits)
  then have 1: "unat t < length P" "c = P ! unat t"
    using col_Inr by blast+
  from assms c obtain costs1 where c1: "coeff_assign costs t (distance_cost (max_distance this)
             (distance env (robot_model_ptr this) (group_name this) (planning_scene this)
                (update env (setJointGroupPositions env st jg c)))) = Inr costs1"
    by (subst (asm) computeCosts_loop.simps) (auto simp: Let_def split: sum.splits)
  from assms c c1 have "computeCosts_loop env this jg P (t + 1) b
          (update env (setJointGroupPositions env st jg c)) costs1 = Inr (st', costs')"
    by (subst (asm) computeCosts_loop.simps) (simp add: Let_def)
  with 1 coeff_assign_Inr[OF c1] show ?thesis by simp
qed

lemma loop_exit:
  "\<not> t < b \<Longrightarrow> computeCosts_loop env this jg P t b st costs = Inr (st, costs)"
  by (subst computeCosts_loop.simps) simp

text \<open>The loop never resizes the cost vector.\<close>

lemma loop_length:
  "computeCosts_loop env this jg P t b st costs = Inr (st', costs') \<Longrightarrow> length costs' = length costs"
proof (induction env this jg P t b st costs rule: computeCosts_loop.induct)
  case (1 env this jg P t b st costs)
  show ?case
  proof (cases "t < b")
    case True
    let ?st1 = "update env (setJointGroupPositions env st jg (P ! unat t))"
    let ?cost = "distance_cost (max_distance this)
             (distance env (robot_model_ptr this) (group_name this) (planning_scene this) ?st1)"
    note u = loop_unfold[OF "1.prems" True]
    from u have "col P t = Inr (P ! unat t)" by (simp add: col_def cols_def)
    moreover from u have "coeff_assign costs t ?cost = Inr (costs[unat t := ?cost])"
      by (simp add: coeff_assign_def)
    ultimately have "length costs' = length (costs[unat t := ?cost])"
      using "1.IH"[OF True _ refl refl refl] u by blast
    then show ?thesis by simp
  next
    case False
    with "1.prems" show ?thesis by (simp add: loop_exit)
  qed
qed

text \<open>The turns from \<open>t\<close> on leave the coefficients below \<open>t\<close> as they are.\<close>

lemma loop_frame:
  "computeCosts_loop env this jg P t b st costs = Inr (st', costs') \<Longrightarrow> i < unat t
     \<Longrightarrow> costs' ! i = costs ! i"
proof (induction "unat b - unat t" arbitrary: t st costs)
  case 0
  then have "\<not> t < b" by (simp add: word_less_nat_alt)
  with "0.prems" show ?case by (simp add: loop_exit)
next
  case (Suc n)
  then have lt: "t < b" by (simp add: word_less_nat_alt)
  let ?st1 = "update env (setJointGroupPositions env st jg (P ! unat t))"
  let ?cost = "distance_cost (max_distance this)
             (distance env (robot_model_ptr this) (group_name this) (planning_scene this) ?st1)"
  note u = loop_unfold[OF Suc.prems(1) lt]
  have s: "unat (t + 1) = Suc (unat t)" using lt by (rule unat_Suc_less)
  with Suc.hyps(2) have "n = unat b - unat (t + 1)" by simp
  moreover from u have "computeCosts_loop env this jg P (t + 1) b ?st1 (costs[unat t := ?cost])
        = Inr (st', costs')" by simp
  moreover have "i < unat (t + 1)" using Suc.prems(2) s by simp
  ultimately have "costs' ! i = (costs[unat t := ?cost]) ! i"
    by (rule Suc.hyps(1))
  with Suc.prems(2) show ?case by simp
qed

text \<open>
  The coefficient \<open>k\<close> of the result, for a timestep \<open>k\<close> of the loop: the cost of the
  distance at the pose that the columns \<open>t\<close> to \<open>k\<close> lead to.
\<close>

lemma loop_values:
  "computeCosts_loop env this jg P t b st costs = Inr (st', costs') \<Longrightarrow> unat t \<le> k
     \<Longrightarrow> k < unat b
     \<Longrightarrow> costs' ! k = distance_cost (max_distance this)
           (distance env (robot_model_ptr this) (group_name this) (planning_scene this)
              (foldl (\<lambda>s c. update env (setJointGroupPositions env s jg c)) st
                 (take (Suc (k - unat t)) (drop (unat t) P))))"
proof (induction "unat b - unat t" arbitrary: t st costs)
  case 0
  then show ?case by simp
next
  case (Suc n)
  then have lt: "t < b" by (simp add: word_less_nat_alt)
  note u = loop_unfold[OF Suc.prems(1) lt]
  have s: "unat (t + 1) = Suc (unat t)" using lt by (rule unat_Suc_less)
  let ?st1 = "update env (setJointGroupPositions env st jg (P ! unat t))"
  let ?cost = "distance_cost (max_distance this)
             (distance env (robot_model_ptr this) (group_name this) (planning_scene this) ?st1)"
  from u have rec: "computeCosts_loop env this jg P (t + 1) b ?st1 (costs[unat t := ?cost])
        = Inr (st', costs')" by simp
  from u have inP: "unat t < length P" and inC: "unat t < length costs" by simp_all
  have dr: "drop (unat t) P = P ! unat t # drop (Suc (unat t)) P"
    using inP by (simp add: Cons_nth_drop_Suc)
  show ?case
  proof (cases "k = unat t")
    case True
    have "costs' ! k = (costs[unat t := ?cost]) ! k"
      using rec by (rule loop_frame) (simp add: True s)
    with True inC show ?thesis by (simp add: dr)
  next
    case False
    with Suc.prems(2) have k: "unat (t + 1) \<le> k" by (simp add: s)
    from Suc.hyps(2) s have n: "n = unat b - unat (t + 1)" by simp
    have "costs' ! k = distance_cost (max_distance this)
           (distance env (robot_model_ptr this) (group_name this) (planning_scene this)
              (foldl (\<lambda>s c. update env (setJointGroupPositions env s jg c)) ?st1
                 (take (Suc (k - unat (t + 1))) (drop (unat (t + 1)) P))))"
      using n rec k Suc.prems(3) by (rule Suc.hyps(1))
    moreover from k s have "Suc (k - unat t) = Suc (Suc (k - unat (t + 1)))" by simp
    ultimately show ?thesis by (simp add: dr s)
  qed
qed

text \<open>
  The loop ends without an error when the matrix and the cost vector both reach to the
  bound, and with an out-of-range store when the cost vector is shorter than the bound.
\<close>

lemma loop_total:
  "unat b \<le> length P \<Longrightarrow> unat b \<le> length costs
     \<Longrightarrow> \<exists>st' costs'. computeCosts_loop env this jg P t b st costs = Inr (st', costs')"
proof (induction "unat b - unat t" arbitrary: t st costs)
  case 0
  then have "\<not> t < b" by (simp add: word_less_nat_alt)
  then show ?case by (simp add: loop_exit)
next
  case (Suc n)
  then have lt: "t < b" by (simp add: word_less_nat_alt)
  then have lt': "unat t < unat b" by (simp add: word_less_nat_alt)
  have s: "unat (t + 1) = Suc (unat t)" using lt by (rule unat_Suc_less)
  let ?st1 = "update env (setJointGroupPositions env st jg (P ! unat t))"
  let ?cost = "distance_cost (max_distance this)
             (distance env (robot_model_ptr this) (group_name this) (planning_scene this) ?st1)"
  from Suc.hyps(2) s have n: "n = unat b - unat (t + 1)" by simp
  have "\<exists>st' costs'. computeCosts_loop env this jg P (t + 1) b ?st1 (costs[unat t := ?cost])
          = Inr (st', costs')"
    using n Suc.prems by (intro Suc.hyps(1)) simp_all
  moreover have "computeCosts_loop env this jg P t b st costs
      = computeCosts_loop env this jg P (t + 1) b ?st1 (costs[unat t := ?cost])"
    using lt lt' Suc.prems
    by (subst computeCosts_loop.simps) (simp add: col_def cols_def coeff_assign_def Let_def)
  ultimately show ?case by simp
qed

lemma loop_out_of_range:
  "t < b \<Longrightarrow> unat b \<le> length P \<Longrightarrow> length costs < unat b
     \<Longrightarrow> \<exists>i. computeCosts_loop env this jg P t b st costs
            = Inl (IndexOutOfRange i (length costs))"
proof (induction "unat b - unat t" arbitrary: t st costs)
  case 0
  then show ?case by (simp add: word_less_nat_alt)
next
  case (Suc n)
  from Suc.prems(1) have lt': "unat t < unat b" by (simp add: word_less_nat_alt)
  have s: "unat (t + 1) = Suc (unat t)" using Suc.prems(1) by (rule unat_Suc_less)
  let ?st1 = "update env (setJointGroupPositions env st jg (P ! unat t))"
  let ?cost = "distance_cost (max_distance this)
             (distance env (robot_model_ptr this) (group_name this) (planning_scene this) ?st1)"
  show ?case
  proof (cases "unat t < length costs")
    case True
    with Suc.prems(3) s have "t + 1 < b" by (simp add: word_less_nat_alt)
    moreover from Suc.hyps(2) s have "n = unat b - unat (t + 1)" by simp
    ultimately have "\<exists>i. computeCosts_loop env this jg P (t + 1) b ?st1 (costs[unat t := ?cost])
          = Inl (IndexOutOfRange i (length (costs[unat t := ?cost])))"
      using Suc.prems(2,3) by (intro Suc.hyps(1)) simp_all
    moreover have "computeCosts_loop env this jg P t b st costs
        = computeCosts_loop env this jg P (t + 1) b ?st1 (costs[unat t := ?cost])"
      using Suc.prems(1,2) lt' True
      by (subst computeCosts_loop.simps) (simp add: col_def cols_def coeff_assign_def Let_def)
    ultimately show ?thesis by simp
  next
    case False
    with Suc.prems(1,2) lt' have "computeCosts_loop env this jg P t b st costs
        = Inl (IndexOutOfRange (unat t) (length costs))"
      by (subst computeCosts_loop.simps) (simp add: col_def cols_def coeff_assign_def Let_def)
    then show ?thesis by blast
  qed
qed

subsection \<open>The concrete inputs\<close>

lemma example_armed_state: "robot_state example_armed = Some [0]"
  by code_simp

lemma example_armed_context:
  "planning_scene example_armed = Some () \<and> plan_request example_armed = \<lparr>start_state = Some [0]\<rparr>"
  by code_simp

lemma example_scores:
  "computeCosts example_env example_armed [[1 / 20], [1 / 5], [- 1]] 0 3 0 0 [] False
     = Inr (True, example_armed\<lparr>robot_state := Some [- 1]\<rparr>, [1 / 2, 0, 1], True)"
  by code_simp

lemma example_too_few:
  "computeCosts example_env example_armed [[1 / 20]] 0 2 0 0 [] False
     = Inr (False, example_armed, [0, 0], False)"
  by code_simp

lemma example_rejected_call:
  "setMotionPlanRequest example_env example_object (Some ()) \<lparr>start_state = None\<rparr> ()
     \<lparr>val = 99999\<rparr> = (False, example_rejected, \<lparr>val = 1\<rparr>)"
  by code_simp

lemma example_rejected_second:
  "setMotionPlanRequest example_env example_armed None \<lparr>start_state = None\<rparr> () \<lparr>val = 0\<rparr>
     = (False, example_armed\<lparr>planning_scene := None, plan_request := \<lparr>start_state = None\<rparr>,
                 robot_state := Some []\<rparr>, \<lparr>val = 1\<rparr>)"
  by code_simp

lemma example_run:
  "run example_env (done_fn example_armed True 40 (1 / 4))
     [Configure example_config,
      ComputeCosts [[1 / 20]] 0 1 0 0 [] False :: (unit, unit, real list option, unit) call]
     = Inr (done_fn example_armed True 40 (1 / 4))"
  by code_simp

subsection \<open>The three-branch cost\<close>

text \<open>
  C1. In a call of \<open>computeCosts\<close> that returns true, the coefficient \<open>t\<close> of the cost
  vector, for every timestep \<open>t\<close> of the loop (\<open>start_timestep \<le> t < start_timestep +
  num_timesteps\<close>), is computed from the distance \<open>d\<close> queried at that timestep and from
  \<open>D = max_distance\<close> by the three branches: 0 if \<open>d \<ge> D\<close>, else 1 if \<open>d < 0\<close>, else
  \<open>(D - d) / D\<close>. The distance is queried at the pose that the columns up to \<open>t\<close> lead to.
\<close>

theorem computeCosts_three_branch:
  assumes "computeCosts env this P s n it r costs v = Inr (True, this', costs', v')"
    and "robot_state this = Some st" and "s \<le> t" and "t < s + n"
  shows "costs' ! unat t =
     (let d = distance env (robot_model_ptr this) (group_name this) (planning_scene this)
                (pose_at env (getJointModelGroup env (robot_model_ptr this) (group_name this))
                   P st s t);
          D = max_distance this
      in if d \<ge> D then 0 else if d < 0 then 1 else (D - d) / D)"
proof -
  let ?jg = "getJointModelGroup env (robot_model_ptr this) (group_name this)"
  from assms(1,2) obtain st1 costs1 where
    "computeCosts_loop env this ?jg P s (s + n) st costs1 = Inr (st1, costs')"
    by (auto simp: computeCosts_def Let_def split: if_splits sum.splits)
  moreover have "unat s \<le> unat t" using assms(3) by (simp add: word_le_nat_alt)
  moreover have "unat t < unat (s + n)" using assms(4) by (simp add: word_less_nat_alt)
  ultimately have "costs' ! unat t = distance_cost (max_distance this)
           (distance env (robot_model_ptr this) (group_name this) (planning_scene this)
              (foldl (\<lambda>s c. update env (setJointGroupPositions env s ?jg c)) st
                 (take (Suc (unat t - unat s)) (drop (unat s) P))))"
    by (rule loop_values)
  then show ?thesis
    by (simp add: pose_at_def distance_cost_def Let_def)
qed

text \<open>
  With \<open>max_distance = 1/10\<close>, the columns with the distances 1/20, 1/5 and -1 get the
  costs 1/2, 0 and 1; the theorem is used at the third timestep.
\<close>

theorem computeCosts_three_branch_witness:
  "computeCosts example_env example_armed [[1 / 20], [1 / 5], [- 1]] 0 3 0 0 [] False
     = Inr (True, example_armed\<lparr>robot_state := Some [- 1]\<rparr>, [1 / 2, 0, 1], True)
   \<and> robot_state example_armed = Some [0] \<and> (0::size_t) \<le> 2 \<and> (2::size_t) < 0 + 3
   \<and> [1 / 2, 0, 1] ! unat (2::size_t) = (1::real)"
proof -
  have le: "(0::size_t) \<le> 2" and lt: "(2::size_t) < 0 + 3" by simp_all
  have "pose_at example_env () [[1 / 20], [1 / 5], [- 1]] [0] 0 2 = [- 1]"
    by code_simp
  with computeCosts_three_branch [OF example_scores example_armed_state le lt]
  have "[1 / 2, 0, 1] ! unat (2::size_t) = (1::real)"
    by (simp add: Let_def example_env_def)
  with example_scores example_armed_state le lt show ?thesis by blast
qed

subsection \<open>The stores into the cost vector\<close>

text \<open>
  With \<open>start_timestep = 0\<close> the call returns true with a vector of \<open>num_timesteps\<close>
  coefficients. With \<open>0 < start_timestep\<close> and \<open>0 < num_timesteps\<close>, a call that passes the
  column check stops at a store outside the vector of \<open>num_timesteps\<close> coefficients. Both for
  \<open>num_timesteps\<close> below \<open>2^63\<close>, where the vector is allocated.
\<close>

lemma computeCosts_from_zero:
  assumes "robot_state this = Some st" and "unat n \<le> cols P" and "n < 2 ^ 63"
  shows "\<exists>st' costs'. computeCosts env this P 0 n it r costs v
            = Inr (True, this\<lparr>robot_state := Some st'\<rparr>, costs', True)
          \<and> length costs' = unat n"
proof -
  let ?jg = "getJointModelGroup env (robot_model_ptr this) (group_name this)"
  let ?z = "replicate (unat n) (0::real)"
  have z: "Zero n = Inr ?z"
    using assms(3) by (rule Zero_small)
  have "\<exists>st' costs'. computeCosts_loop env this ?jg P 0 n st ?z = Inr (st', costs')"
    using assms(2) by (intro loop_total) (simp_all add: cols_def)
  then obtain st' costs' where
    l: "computeCosts_loop env this ?jg P 0 n st ?z = Inr (st', costs')"
    by blast
  then have "length costs' = unat n"
    using loop_length by fastforce
  with l z assms(1,2) have "computeCosts env this P 0 n it r costs v
            = Inr (True, this\<lparr>robot_state := Some st'\<rparr>, costs', True)
          \<and> length costs' = unat n"
    by (simp add: computeCosts_def Let_def)
  then show ?thesis by blast
qed

lemma computeCosts_offset_out_of_range:
  assumes "robot_state this = Some st" and "0 < s" and "0 < n"
    and "unat s + unat n < 2 ^ 64" and "unat s + unat n \<le> cols P" and "n < 2 ^ 63"
  shows "\<exists>i. computeCosts env this P s n it r costs v = Inl (IndexOutOfRange i (unat n))"
proof -
  let ?jg = "getJointModelGroup env (robot_model_ptr this) (group_name this)"
  let ?z = "replicate (unat n) (0::real)"
  have z: "Zero n = Inr ?z"
    using assms(6) by (rule Zero_small)
  have sum: "unat (s + n) = unat s + unat n"
    using assms(4) by (rule size_t_sum)
  have pos: "0 < unat s" "0 < unat n"
    using assms(2,3) by (simp_all add: word_less_nat_alt)
  have "s < s + n"
    using sum pos by (simp add: word_less_nat_alt)
  moreover have "unat (s + n) \<le> length P"
    using sum assms(5) by (simp add: cols_def)
  moreover have "length ?z < unat (s + n)"
    using sum pos by simp
  ultimately have "\<exists>i. computeCosts_loop env this ?jg P s (s + n) st ?z
      = Inl (IndexOutOfRange i (length ?z))"
    by (rule loop_out_of_range)
  then obtain i where "computeCosts_loop env this ?jg P s (s + n) st ?z
      = Inl (IndexOutOfRange i (unat n))"
    by auto
  with assms(1,5) sum z have "computeCosts env this P s n it r costs v = Inl (IndexOutOfRange i (unat n))"
    by (simp add: computeCosts_def Let_def)
  then show ?thesis by blast
qed

text \<open>
  C2. A call that passes the column check should store the cost of every timestep \<open>t\<close> of
  \<open>[start_timestep, start_timestep + num_timesteps)\<close> at index \<open>t\<close> of a vector of
  \<open>num_timesteps\<close> coefficients, inside the vector. With a matrix of two columns,
  \<open>start_timestep = 1\<close> and \<open>num_timesteps = 1\<close>, the check passes (2 is not less than
  1 + 1), the vector has one coefficient, and the store of timestep 1 is at index 1,
  outside it.
\<close>

theorem computeCosts_store_out_of_range:
  "computeCosts example_env example_armed [[1 / 20], [1 / 20]] 1 1 0 0 [] False
     = Inl (IndexOutOfRange 1 1)"
  by code_simp

subsection \<open>Calls without a pose snapshot\<close>

lemma configure_robot_state: "robot_state (snd (configure this config)) = robot_state this"
  by (simp add: configure_def Let_def split: sum.splits)

lemma initialize_robot_state:
  "robot_state (snd (initialize env this model_ptr grp_name config)) = robot_state this"
  by (simp add: initialize_def Let_def configure_robot_state)

lemma computeCosts_null:
  "robot_state this = None
     \<Longrightarrow> computeCosts env this P s n it r costs v = Inr (False, this, costs, v)"
  by (simp add: computeCosts_def)

lemma call_step_null:
  "robot_state this = None \<Longrightarrow> \<not> is_SetMotionPlanRequest c \<Longrightarrow> call_step env this c = Inr this'
     \<Longrightarrow> robot_state this' = None"
  by (cases c) (auto simp: configure_robot_state initialize_robot_state computeCosts_null done_fn_def)

lemma run_null:
  "robot_state this = None \<Longrightarrow> list_all (\<lambda>c. \<not> is_SetMotionPlanRequest c) cs
     \<Longrightarrow> run env this cs = Inr this' \<Longrightarrow> robot_state this' = None"
proof (induction cs arbitrary: this)
  case Nil
  then show ?case by simp
next
  case (Cons c cs)
  from Cons.prems(3) obtain this1 where
    s: "call_step env this c = Inr this1" and r: "run env this1 cs = Inr this'"
    by (auto split: sum.splits)
  from Cons.prems(1,2) s have "robot_state this1 = None"
    by (auto dest: call_step_null)
  with Cons.prems(2) r show ?case
    by (auto intro: Cons.IH)
qed

text \<open>
  C3, amended. \<open>computeCosts\<close> returns false, and leaves \<open>costs\<close> and \<open>validity\<close> as they
  were, whenever no \<open>setMotionPlanRequest\<close> has been called on the object (whether it would
  have succeeded or not) since the constructor or since the last \<open>done\<close>: after any
  sequence of other calls the pose snapshot is still null.
\<close>

theorem computeCosts_fails_unarmed:
  assumes "this0 = ObstacleDistanceGradient md cw req0
           \<or> this0 = done_fn this1 success total_iterations final_cost"
    and "list_all (\<lambda>c. \<not> is_SetMotionPlanRequest c) cs"
    and "run env this0 cs = Inr this"
  shows "computeCosts env this P s n it r costs v = Inr (False, this, costs, v)"
proof -
  from assms(1) have "robot_state this0 = None"
    by (auto simp: ObstacleDistanceGradient_def done_fn_def)
  then have "robot_state this = None"
    using assms(2,3) by (rule run_null)
  then show ?thesis by (rule computeCosts_null)
qed

theorem computeCosts_fails_unarmed_witness:
  "(done_fn example_armed True 40 (1 / 4) = ObstacleDistanceGradient 0 0 \<lparr>start_state = None\<rparr>
      \<or> done_fn example_armed True 40 (1 / 4) = done_fn example_armed True 40 (1 / 4))
   \<and> list_all (\<lambda>c. \<not> is_SetMotionPlanRequest c)
        [Configure example_config,
         ComputeCosts [[1 / 20]] 0 1 0 0 [] False :: (unit, unit, real list option, unit) call]
   \<and> run example_env (done_fn example_armed True 40 (1 / 4))
        [Configure example_config,
         ComputeCosts [[1 / 20]] 0 1 0 0 [] False :: (unit, unit, real list option, unit) call]
       = Inr (done_fn example_armed True 40 (1 / 4))
   \<and> computeCosts example_env (done_fn example_armed True 40 (1 / 4)) [[1 / 20]] 0 1 0 0 [7] True
       = Inr (False, done_fn example_armed True 40 (1 / 4), [7], True)"
proof -
  have d: "done_fn example_armed True 40 (1 / 4) = ObstacleDistanceGradient 0 0 \<lparr>start_state = None\<rparr>
      \<or> done_fn example_armed True 40 (1 / 4) = done_fn example_armed True 40 (1 / 4)"
    by simp
  have l: "list_all (\<lambda>c. \<not> is_SetMotionPlanRequest c)
        [Configure example_config,
         ComputeCosts [[1 / 20]] 0 1 0 0 [] False :: (unit, unit, real list option, unit) call]"
    by simp
  from computeCosts_fails_unarmed [OF d l example_run] d l example_run
  show ?thesis by blast
qed

text \<open>
  C3 as stated fails after a \<open>setMotionPlanRequest\<close> that returns false: on a new,
  initialized object the request with the rejected start state returns false, no
  \<open>setMotionPlanRequest\<close> has succeeded, and \<open>computeCosts\<close> returns true with a cost.
\<close>

theorem computeCosts_after_rejected_request:
  "run example_env (ObstacleDistanceGradient 0 0 \<lparr>start_state = None\<rparr>)
     [Initialize (Some ()) ''manipulator'' example_config,
      SetMotionPlanRequest (Some ()) \<lparr>start_state = None\<rparr> () \<lparr>val = 0\<rparr>]
     = Inr example_rejected
   \<and> fst (setMotionPlanRequest example_env example_object (Some ()) \<lparr>start_state = None\<rparr> ()
           \<lparr>val = 0\<rparr>) = False
   \<and> computeCosts example_env example_rejected [[1 / 20]] 0 1 0 0 [] False
       = Inr (True, example_rejected\<lparr>robot_state := Some [1 / 20]\<rparr>, [1 / 2], True)"
  by code_simp

subsection \<open>setMotionPlanRequest\<close>

text \<open>
  C4. Every call of \<open>setMotionPlanRequest\<close> returns the error code with \<open>val\<close> set to
  \<open>SUCCESS\<close> and nothing else changed, whatever it returns; so also when it returns false.
\<close>

theorem setMotionPlanRequest_error_code:
  "setMotionPlanRequest env this scene req config error_code = (ret, this', error_code')
     \<Longrightarrow> error_code' = error_code\<lparr>val := SUCCESS\<rparr>"
  by (auto simp: setMotionPlanRequest_def Let_def split: prod.splits if_splits)

text \<open>A call that returns false, entered with the error code 99999.\<close>

theorem setMotionPlanRequest_error_code_witness:
  "setMotionPlanRequest example_env example_object (Some ()) \<lparr>start_state = None\<rparr> ()
     \<lparr>val = 99999\<rparr> = (False, example_rejected, \<lparr>val = 1\<rparr>)
   \<and> \<lparr>val = 1\<rparr> = \<lparr>val = 99999\<rparr>\<lparr>val := SUCCESS\<rparr>"
  using setMotionPlanRequest_error_code [OF example_rejected_call] example_rejected_call by simp

subsection \<open>configure\<close>

text \<open>
  C5, amended. \<open>configure\<close> returns false whenever one of the keys \<^verbatim>\<open>cost_weight\<close> and
  \<^verbatim>\<open>max_distance\<close> is absent or one of the two values does not convert to a
  floating-point number. It then leaves \<^verbatim>\<open>cost_weight_\<close> and every member other than
  \<^verbatim>\<open>max_distance_\<close> unchanged, and it leaves \<^verbatim>\<open>max_distance_\<close> unchanged too when a
  key is absent or the value of \<^verbatim>\<open>max_distance\<close> does not convert.
\<close>

theorem configure_failure:
  assumes "\<not> hasMember config ''cost_weight'' \<or> \<not> hasMember config ''max_distance''
           \<or> double_member config ''cost_weight'' = Inl e1
           \<or> double_member config ''max_distance'' = Inl e2"
    and "configure this config = (ret, this')"
  shows "\<not> ret \<and> this' = this\<lparr>max_distance := max_distance this'\<rparr>
         \<and> (\<not> hasMember config ''cost_weight'' \<or> \<not> hasMember config ''max_distance''
              \<or> double_member config ''max_distance'' = Inl e2 \<longrightarrow> this' = this)"
  using assms by (auto simp: configure_def Let_def split: if_splits sum.splits)

text \<open>A configuration without the key \<^verbatim>\<open>max_distance\<close>.\<close>

theorem configure_failure_witness:
  "hasMember (TypeStruct [(''cost_weight'', TypeDouble 1)]) ''cost_weight''
   \<and> \<not> hasMember (TypeStruct [(''cost_weight'', TypeDouble 1)]) ''max_distance''
   \<and> configure example_object (TypeStruct [(''cost_weight'', TypeDouble 1)])
       = (False, example_object)
   \<and> example_object = example_object\<lparr>max_distance := max_distance example_object\<rparr>"
proof -
  have m: "\<not> hasMember (TypeStruct [(''cost_weight'', TypeDouble 1)]) ''max_distance''"
    by simp
  then have h: "\<not> hasMember (TypeStruct [(''cost_weight'', TypeDouble 1)]) ''cost_weight''
      \<or> \<not> hasMember (TypeStruct [(''cost_weight'', TypeDouble 1)]) ''max_distance''
      \<or> double_member (TypeStruct [(''cost_weight'', TypeDouble 1)]) ''cost_weight''
          = Inl XmlRpcTypeError
      \<or> double_member (TypeStruct [(''cost_weight'', TypeDouble 1)]) ''max_distance''
          = Inl XmlRpcTypeError"
    by blast
  have c: "configure example_object (TypeStruct [(''cost_weight'', TypeDouble 1)])
      = (False, example_object)"
    by (simp add: configure_def)
  from configure_failure [OF h c] m c show ?thesis by simp
qed

text \<open>
  C5 as stated fails when \<^verbatim>\<open>max_distance\<close> converts and \<^verbatim>\<open>cost_weight\<close> does not: both
  keys are present, the value of \<^verbatim>\<open>cost_weight\<close> is a string, \<open>configure\<close> returns false,
  and the stored \<^verbatim>\<open>max_distance_\<close> has changed from 1/10 to 1/2.
\<close>

theorem configure_overwrites_max_distance:
  "hasMember example_bad_config ''cost_weight'' \<and> hasMember example_bad_config ''max_distance''
   \<and> double_member example_bad_config ''cost_weight'' = Inl XmlRpcTypeError
   \<and> max_distance example_object = 1 / 10
   \<and> configure example_object example_bad_config
       = (False, example_object\<lparr>max_distance := 1 / 2\<rparr>)"
  by code_simp

subsection \<open>The range of the cost\<close>

text \<open>
  C6. For a threshold \<open>D > 0\<close>, the cost of every distance lies between 0 and 1, a larger
  distance never has a larger cost, the cost of the distance 0 is 1, and the cost of every
  distance \<open>e \<ge> D\<close> is 0.
\<close>

theorem distance_cost_range_monotone:
  "0 < D \<Longrightarrow>
     0 \<le> distance_cost D d \<and> distance_cost D d \<le> 1
     \<and> (d \<le> d' \<longrightarrow> distance_cost D d' \<le> distance_cost D d)
     \<and> distance_cost D 0 = 1
     \<and> (D \<le> e \<longrightarrow> distance_cost D e = 0)"
  by (auto simp: distance_cost_def divide_simps)

theorem distance_cost_range_monotone_witness:
  "(0::real) < 1 / 10
     \<and> 0 \<le> distance_cost (1 / 10) (1 / 20) \<and> distance_cost (1 / 10) (1 / 20) \<le> 1
     \<and> (1::real) / 20 \<le> 3 / 40
     \<and> distance_cost (1 / 10) (3 / 40) \<le> distance_cost (1 / 10) (1 / 20)
     \<and> distance_cost (1 / 10) 0 = 1
     \<and> (1::real) / 10 \<le> 1 / 5 \<and> distance_cost (1 / 10) (1 / 5) = 0"
  using distance_cost_range_monotone [of "1 / 10" "1 / 20" "3 / 40" "1 / 5"] by simp

subsection \<open>The column check and the validity flag\<close>




text \<open>
  It also fails from \<open>num_timesteps = 2^63 = 9223372036854775808\<close> on with a pose snapshot:
  the allocation of the cost vector, which comes before the check, stops the call.
\<close>

lemma computeCosts_negative_size:
  "computeCosts example_env example_armed [] 0 9223372036854775808 0 0 [] False
     = Inl (NegativeSize (- 9223372036854775808))"
  by code_simp

text \<open>
  C10. \<open>computeCosts\<close> sets \<open>validity\<close> to true when it returns true and leaves it as
  the caller passed it when it returns false; it returns false exactly when the pose snapshot
  is null or the matrix has too few columns.
\<close>

theorem computeCosts_validity:
  "computeCosts env this P s n it r costs v = Inr (ret, this', costs', v')
     \<Longrightarrow> v' = (if ret then True else v)
         \<and> (\<not> ret) = (robot_state this = None \<or> cols P < unat (s + n))"
  by (auto simp: computeCosts_def Let_def split: option.splits if_splits sum.splits)

theorem computeCosts_validity_witness:
  "computeCosts example_env example_armed [[1 / 20]] 0 2 0 0 [] False
     = Inr (False, example_armed, [0, 0], False)
   \<and> False = (if False then True else False)
   \<and> (\<not> False) = (robot_state example_armed = None \<or> cols [[1 / 20]] < unat ((0::size_t) + 2))"
  using computeCosts_validity [OF example_too_few] example_too_few by simp

subsection \<open>The members that the calls replace\<close>

text \<open>
  C8, amended. \<open>done\<close> resets the pose snapshot to null, whatever the success flag, and
  leaves every other member unchanged: the stored planning scene and plan request as well as
  the configuration values, the group name and the robot-model pointer.
\<close>

theorem done_fn_effect:
  "robot_state (done_fn this success total_iterations final_cost) = None
   \<and> done_fn this success total_iterations final_cost
       = this\<lparr>robot_state := robot_state (done_fn this success total_iterations final_cost)\<rparr>
   \<and> planning_scene (done_fn this success total_iterations final_cost) = planning_scene this
   \<and> plan_request (done_fn this success total_iterations final_cost) = plan_request this
   \<and> max_distance (done_fn this success total_iterations final_cost) = max_distance this
   \<and> cost_weight (done_fn this success total_iterations final_cost) = cost_weight this
   \<and> group_name (done_fn this success total_iterations final_cost) = group_name this
   \<and> robot_model_ptr (done_fn this success total_iterations final_cost) = robot_model_ptr this"
  by (simp add: done_fn_def)

text \<open>
  C8 as stated fails on the planning context: after \<open>done\<close> the object still holds the
  planning scene and the plan request of the last \<open>setMotionPlanRequest\<close>.
\<close>

theorem done_fn_keeps_planning_context:
  "planning_scene example_armed = Some ()
   \<and> plan_request example_armed = \<lparr>start_state = Some [0]\<rparr>
   \<and> planning_scene (done_fn example_armed True 40 (1 / 4)) = Some ()
   \<and> plan_request (done_fn example_armed True 40 (1 / 4)) = \<lparr>start_state = Some [0]\<rparr>"
  by code_simp

text \<open>
  C9. \<open>setMotionPlanRequest\<close> stores the planning scene and the request and replaces the
  pose snapshot by a new robot state, on which the conversion of the start state has run,
  whatever the conversion returns; so also when the call returns false the three members have
  been replaced and the pose snapshot is not null.
\<close>

theorem setMotionPlanRequest_overwrites:
  "setMotionPlanRequest env this scene req config error_code = (ret, this', error_code')
     \<Longrightarrow> planning_scene this' = scene \<and> plan_request this' = req
         \<and> robot_state this' =
             Some (snd (robotStateMsgToRobotState env (start_state req)
                          (RobotState env (robot_model_ptr this))))
         \<and> ret = fst (robotStateMsgToRobotState env (start_state req)
                          (RobotState env (robot_model_ptr this)))"
  by (auto simp: setMotionPlanRequest_def Let_def split: prod.splits if_splits)

text \<open>A call that returns false, on an object that holds a scene, a request and a pose.\<close>

theorem setMotionPlanRequest_overwrites_witness:
  "setMotionPlanRequest example_env example_armed None \<lparr>start_state = None\<rparr> () \<lparr>val = 0\<rparr>
     = (False, example_armed\<lparr>planning_scene := None, plan_request := \<lparr>start_state = None\<rparr>,
                 robot_state := Some []\<rparr>, \<lparr>val = 1\<rparr>)
   \<and> planning_scene example_armed = Some ()
   \<and> plan_request example_armed = \<lparr>start_state = Some [0]\<rparr>
   \<and> robot_state example_armed = Some [0]
   \<and> planning_scene (example_armed\<lparr>planning_scene := None, plan_request := \<lparr>start_state = None\<rparr>,
        robot_state := Some []\<rparr>) = None
   \<and> plan_request (example_armed\<lparr>planning_scene := None, plan_request := \<lparr>start_state = None\<rparr>,
        robot_state := Some []\<rparr>) = \<lparr>start_state = None\<rparr>
   \<and> robot_state (example_armed\<lparr>planning_scene := None, plan_request := \<lparr>start_state = None\<rparr>,
        robot_state := Some []\<rparr>) = Some []"
  using setMotionPlanRequest_overwrites [OF example_rejected_second] example_rejected_second
    example_armed_state example_armed_context
  by simp

end
